theory Spec2Isabelle
  imports Main "HOL-Library.Word"
begin

section \<open>go-logx: sensitive-key registry and value masker (mask.go)\<close>

text \<open>
  A Go \<open>string\<close> is an immutable sequence of bytes and \<open>len\<close> counts bytes; a HOL
  \<^typ>\<open>char\<close> is an 8-bit value, so a Go string is modelled by \<^typ>\<open>string\<close> and a
  \<open>[]byte\<close> by a list of the same 8-bit values. The conversion \<open>string(v)\<close> of a byte
  slice copies the bytes and is therefore the identity on the list.
\<close>

type_synonym byte = char

text \<open>
  Run-time panics of Go are values: a slice expression out of range and the dereference
  of a nil pointer are the two the modelled code can meet.
\<close>

datatype panic = SliceBoundsOutOfRange | NilPointerDereference

text \<open>
  The dynamic value held in the \<open>interface{}\<close> of a field. The constructors follow the
  typed field constructors of logger.go (String, Int, Int64, Float64, Bool, ErrorField, Any).
  A float64 is carried as its IEEE-754 bit pattern, an error by its message, and any other
  dynamic type (slices, structs, named string types, ...) as an opaque rendering; masking
  never looks inside any of these.
\<close>

datatype gvalue =
    VNil
  | VString string
  | VBytes "byte list"
  | VInt "64 word"
  | VInt64 "64 word"
  | VFloat64 "64 word"
  | VBool bool
  | VError string
  | VOther string

subsection \<open>strings.ToLower\<close>

text \<open>
  \<open>strings.ToLower\<close> belongs to the Go standard library. It scans the bytes of its
  argument; when all of them are below 0x80 it returns the text with the bytes
  \<open>'A'..'Z'\<close> replaced by \<open>'a'..'z'\<close>, and otherwise it returns
  \<open>strings.Map(unicode.ToLower, s)\<close>, which decodes the text as UTF-8 and applies the
  Unicode case tables to every code point. The first path is written out; the second
  depends on tables outside the repository and is the parameter \<open>mapLower\<close> of
  everything that lower-cases a key.
\<close>

type_synonym mapper = "string \<Rightarrow> string"

definition isASCII :: "string \<Rightarrow> bool" where
  "isASCII v = list_all (\<lambda>c. (of_char c :: nat) < 128) v"

definition isUpper :: "char \<Rightarrow> bool" where
  "isUpper c = (65 \<le> (of_char c :: nat) \<and> (of_char c :: nat) \<le> 90)"

definition lowerByte :: "char \<Rightarrow> char" where
  "lowerByte c = (if isUpper c then char_of ((of_char c :: nat) + 32) else c)"

definition ToLower :: "mapper \<Rightarrow> string \<Rightarrow> string" where
  "ToLower mapLower s = (if isASCII s then map lowerByte s else mapLower s)"

subsection \<open>The registry\<close>

type_synonym registry = "string \<rightharpoonup> bool"

text \<open>The initial value of the package variable \<open>sensitiveKeys\<close>.\<close>

definition sensitiveKeys :: registry where
  "sensitiveKeys = map_of
     [(''password'', True), (''passwd'', True), (''pass'', True), (''ssn'', True),
      (''token'', True), (''apikey'', True), (''api_key'', True), (''secret'', True),
      (''key'', True), (''email'', True), (''phone'', True), (''credit_card'', True),
      (''cc'', True), (''cvv'', True), (''pin'', True), (''auth'', True),
      (''authorization'', True), (''bearer'', True), (''jwt'', True)]"

definition AddSensitiveKey :: "mapper \<Rightarrow> string \<Rightarrow> registry \<Rightarrow> registry" where
  "AddSensitiveKey mapLower key reg = reg(ToLower mapLower key \<mapsto> True)"

definition RemoveSensitiveKey :: "mapper \<Rightarrow> string \<Rightarrow> registry \<Rightarrow> registry" where
  "RemoveSensitiveKey mapLower key reg = reg(ToLower mapLower key := None)"

text \<open>Reading a Go map at an absent key gives the zero value, \<open>false\<close>.\<close>

definition isSensitiveKey :: "mapper \<Rightarrow> registry \<Rightarrow> string \<Rightarrow> bool" where
  "isSensitiveKey mapLower reg key = (case reg (ToLower mapLower key) of None \<Rightarrow> False | Some b \<Rightarrow> b)"

subsection \<open>maskString and maskSensitiveData\<close>

text \<open>The slice expression \<open>s[lo:hi]\<close> of a string; it panics unless \<open>lo \<le> hi \<le> len(s)\<close>.\<close>

definition slice :: "string \<Rightarrow> nat \<Rightarrow> nat \<Rightarrow> panic + string" where
  "slice s lo hi =
     (if lo \<le> hi \<and> hi \<le> length s then Inr (take (hi - lo) (drop lo s))
      else Inl SliceBoundsOutOfRange)"

definition maskString :: "string \<Rightarrow> panic + string" where
  "maskString v =
     (if length v = 0 then Inr ''''
      else if length v \<le> 2 then Inr ''***''
      else if length v \<le> 4 then
        (case slice v 0 1 of
           Inl e \<Rightarrow> Inl e
         | Inr a \<Rightarrow>
             (case slice v (length v - 1) (length v) of
                Inl e \<Rightarrow> Inl e
              | Inr b \<Rightarrow> Inr (a @ ''***'' @ b)))
      else
        (case slice v 0 2 of
           Inl e \<Rightarrow> Inl e
         | Inr a \<Rightarrow>
             (case slice v (length v - 2) (length v) of
                Inl e \<Rightarrow> Inl e
              | Inr b \<Rightarrow> Inr (a @ ''***'' @ b))))"

definition maskSensitiveData :: "mapper \<Rightarrow> registry \<Rightarrow> string \<Rightarrow> gvalue \<Rightarrow> panic + gvalue" where
  "maskSensitiveData mapLower reg key v =
     (if \<not> isSensitiveKey mapLower reg key then Inr v
      else
        (case v of
           VString s \<Rightarrow>
             (if s = '''' then Inr (VString s)
              else (case maskString s of Inl e \<Rightarrow> Inl e | Inr m \<Rightarrow> Inr (VString m)))
         | VBytes b \<Rightarrow>
             (if length b = 0 then Inr (VBytes b)
              else (case maskString b of Inl e \<Rightarrow> Inl e | Inr m \<Rightarrow> Inr (VString m)))
         | _ \<Rightarrow> Inr (VString ''***MASKED***'')))"

section \<open>Fields, loggers and the wrapped engine (logger.go)\<close>

record Field =
  Key :: string
  Value :: gvalue

text \<open>
  The wrapped zap engine is outside the repository. What the wrapper hands to it is
  recorded: the severity method that was invoked, the message, and the converted fields
  (\<open>zap.Any(key, value)\<close> is the pair of its arguments). An engine is the configuration
  \<open>New\<close> builds it from, together with the calls it has received so far; filtering by
  level, encoding and the process exit after a fatal entry are the engine's own business.
\<close>

datatype zlevel = ZapDebug | ZapInfo | ZapWarn | ZapError | ZapFatal

datatype encoder = ConsoleEncoder | JSONEncoder

datatype sink = Stdout | File string

record zcall =
  zlevel :: zlevel
  zmsg :: string
  zfields :: "(string \<times> gvalue) list"

record zap =
  core_encoder :: encoder
  core_output :: sink
  core_level :: zlevel
  opt_caller :: bool
  opt_stacktrace :: bool
  received :: "zcall list"

text \<open>
  A \<open>*Logger\<close> or \<open>*zap.Logger\<close> is \<open>None\<close> (nil) or the address of an object; the
  objects live in lists indexed by address, and allocation appends. The mutex \<open>mu\<close> of a
  Logger has no sequential effect and is left out. The field \<open>fields\<close> is written
  \<open>fields'\<close>, the plain name being taken by the record package.
\<close>

type_synonym ptr = "nat option"

record Logger =
  zapLogger :: ptr
  fields' :: "Field list"

record world =
  sensitive :: registry
  loggers :: "Logger list"
  engines :: "zap list"
  defaultLogger :: ptr
  once_done :: bool

definition deref :: "'a list \<Rightarrow> ptr \<Rightarrow> panic + 'a" where
  "deref heap p =
     (case p of
        None \<Rightarrow> Inl NilPointerDereference
      | Some a \<Rightarrow> if a < length heap then Inr (heap ! a) else Inl NilPointerDereference)"

text \<open>The world after engine \<open>h\<close> has been handed one more call.\<close>

definition handed :: "world \<Rightarrow> nat \<Rightarrow> zcall \<Rightarrow> world" where
  "handed w h c =
     w\<lparr>engines := (engines w)[h := (engines w ! h)\<lparr>received := received (engines w ! h) @ [c]\<rparr>]\<rparr>"

text \<open>\<open>z.Debug(msg, fields...)\<close> and its siblings, on the engine a Logger points to.\<close>

definition zapLog :: "zlevel \<Rightarrow> world \<Rightarrow> ptr \<Rightarrow> string \<Rightarrow> (string \<times> gvalue) list \<Rightarrow> panic + world" where
  "zapLog lvl w z msg zapFields =
     (case z of
        None \<Rightarrow> Inl NilPointerDereference
      | Some h \<Rightarrow>
          if h < length (engines w)
          then Inr (handed w h \<lparr>zlevel = lvl, zmsg = msg, zfields = zapFields\<rparr>)
          else Inl NilPointerDereference)"

text \<open>
  The methods of \<open>*Logger\<close>. A Logger's field slice comes from \<open>New\<close> (an empty
  literal) or from \<open>With\<close> (made with exactly the capacity it is then filled to), so its
  length is its capacity: \<open>append(l.fields, fields...)\<close> never writes into an array that
  another Logger reads, and slices are modelled by the lists of their elements.
\<close>

fun convertFields :: "mapper \<Rightarrow> registry \<Rightarrow> Field list \<Rightarrow> panic + (string \<times> gvalue) list" where
  "convertFields mapLower reg [] = Inr []"
| "convertFields mapLower reg (field # rest) =
     (case maskSensitiveData mapLower reg (Key field) (Value field) of
        Inl e \<Rightarrow> Inl e
      | Inr maskedValue \<Rightarrow>
          (case convertFields mapLower reg rest of
             Inl e \<Rightarrow> Inl e
           | Inr zapFields \<Rightarrow> Inr ((Key field, maskedValue) # zapFields)))"

definition Trace :: "mapper \<Rightarrow> world \<Rightarrow> ptr \<Rightarrow> string \<Rightarrow> Field list \<Rightarrow> panic + world" where
  "Trace mapLower w l msg fs =
     (case deref (loggers w) l of
        Inl e \<Rightarrow> Inl e
      | Inr lg \<Rightarrow>
          (let allFields = fields' lg @ fs in
           case convertFields mapLower (sensitive w) allFields of
             Inl e \<Rightarrow> Inl e
           | Inr zapFields \<Rightarrow> zapLog ZapDebug w (zapLogger lg) msg zapFields))"

definition Debug :: "mapper \<Rightarrow> world \<Rightarrow> ptr \<Rightarrow> string \<Rightarrow> Field list \<Rightarrow> panic + world" where
  "Debug mapLower w l msg fs =
     (case deref (loggers w) l of
        Inl e \<Rightarrow> Inl e
      | Inr lg \<Rightarrow>
          (let allFields = fields' lg @ fs in
           case convertFields mapLower (sensitive w) allFields of
             Inl e \<Rightarrow> Inl e
           | Inr zapFields \<Rightarrow> zapLog ZapDebug w (zapLogger lg) msg zapFields))"

definition Info :: "mapper \<Rightarrow> world \<Rightarrow> ptr \<Rightarrow> string \<Rightarrow> Field list \<Rightarrow> panic + world" where
  "Info mapLower w l msg fs =
     (case deref (loggers w) l of
        Inl e \<Rightarrow> Inl e
      | Inr lg \<Rightarrow>
          (let allFields = fields' lg @ fs in
           case convertFields mapLower (sensitive w) allFields of
             Inl e \<Rightarrow> Inl e
           | Inr zapFields \<Rightarrow> zapLog ZapInfo w (zapLogger lg) msg zapFields))"

definition Warn :: "mapper \<Rightarrow> world \<Rightarrow> ptr \<Rightarrow> string \<Rightarrow> Field list \<Rightarrow> panic + world" where
  "Warn mapLower w l msg fs =
     (case deref (loggers w) l of
        Inl e \<Rightarrow> Inl e
      | Inr lg \<Rightarrow>
          (let allFields = fields' lg @ fs in
           case convertFields mapLower (sensitive w) allFields of
             Inl e \<Rightarrow> Inl e
           | Inr zapFields \<Rightarrow> zapLog ZapWarn w (zapLogger lg) msg zapFields))"

definition Error :: "mapper \<Rightarrow> world \<Rightarrow> ptr \<Rightarrow> string \<Rightarrow> Field list \<Rightarrow> panic + world" where
  "Error mapLower w l msg fs =
     (case deref (loggers w) l of
        Inl e \<Rightarrow> Inl e
      | Inr lg \<Rightarrow>
          (let allFields = fields' lg @ fs in
           case convertFields mapLower (sensitive w) allFields of
             Inl e \<Rightarrow> Inl e
           | Inr zapFields \<Rightarrow> zapLog ZapError w (zapLogger lg) msg zapFields))"

definition Fatal :: "mapper \<Rightarrow> world \<Rightarrow> ptr \<Rightarrow> string \<Rightarrow> Field list \<Rightarrow> panic + world" where
  "Fatal mapLower w l msg fs =
     (case deref (loggers w) l of
        Inl e \<Rightarrow> Inl e
      | Inr lg \<Rightarrow>
          (let allFields = fields' lg @ fs in
           case convertFields mapLower (sensitive w) allFields of
             Inl e \<Rightarrow> Inl e
           | Inr zapFields \<Rightarrow> zapLog ZapFatal w (zapLogger lg) msg zapFields))"

text \<open>
  The formatted methods. \<open>fmt.Sprintf\<close> is the standard library's and is a parameter:
  any function from a template and its arguments to the formatted text.
\<close>

type_synonym sprintf = "string \<Rightarrow> gvalue list \<Rightarrow> string"

definition Tracef :: "sprintf \<Rightarrow> mapper \<Rightarrow> world \<Rightarrow> ptr \<Rightarrow> string \<Rightarrow> gvalue list \<Rightarrow> panic + world" where
  "Tracef Sprintf mapLower w l format args = (let msg = Sprintf format args in Trace mapLower w l msg [])"

definition Debugf :: "sprintf \<Rightarrow> mapper \<Rightarrow> world \<Rightarrow> ptr \<Rightarrow> string \<Rightarrow> gvalue list \<Rightarrow> panic + world" where
  "Debugf Sprintf mapLower w l format args = (let msg = Sprintf format args in Debug mapLower w l msg [])"

definition Infof :: "sprintf \<Rightarrow> mapper \<Rightarrow> world \<Rightarrow> ptr \<Rightarrow> string \<Rightarrow> gvalue list \<Rightarrow> panic + world" where
  "Infof Sprintf mapLower w l format args = (let msg = Sprintf format args in Info mapLower w l msg [])"

definition Warnf :: "sprintf \<Rightarrow> mapper \<Rightarrow> world \<Rightarrow> ptr \<Rightarrow> string \<Rightarrow> gvalue list \<Rightarrow> panic + world" where
  "Warnf Sprintf mapLower w l format args = (let msg = Sprintf format args in Warn mapLower w l msg [])"

definition Errorf :: "sprintf \<Rightarrow> mapper \<Rightarrow> world \<Rightarrow> ptr \<Rightarrow> string \<Rightarrow> gvalue list \<Rightarrow> panic + world" where
  "Errorf Sprintf mapLower w l format args = (let msg = Sprintf format args in Error mapLower w l msg [])"

definition Fatalf :: "sprintf \<Rightarrow> mapper \<Rightarrow> world \<Rightarrow> ptr \<Rightarrow> string \<Rightarrow> gvalue list \<Rightarrow> panic + world" where
  "Fatalf Sprintf mapLower w l format args = (let msg = Sprintf format args in Fatal mapLower w l msg [])"

text \<open>
  \<open>With\<close> reads the receiver, builds a fresh slice holding the receiver's fields and
  then the given ones, and allocates a new Logger around it.
\<close>

definition With :: "world \<Rightarrow> ptr \<Rightarrow> Field list \<Rightarrow> panic + (ptr \<times> world)" where
  "With w l fs =
     (case deref (loggers w) l of
        Inl e \<Rightarrow> Inl e
      | Inr lg \<Rightarrow>
          (let newFields = [] @ fields' lg;
               newFields = newFields @ fs
           in Inr (Some (length (loggers w)),
                   w\<lparr>loggers := loggers w @ [\<lparr>zapLogger = zapLogger lg, fields' = newFields\<rparr>]\<rparr>)))"

section \<open>Configuration, construction and the default logger (logx.go)\<close>

text \<open>\<open>Level\<close> is a Go \<open>int\<close> with six named constants; any other value is possible.\<close>

type_synonym Level = int

definition TraceLevel :: Level where "TraceLevel = 0"
definition DebugLevel :: Level where "DebugLevel = 1"
definition InfoLevel :: Level where "InfoLevel = 2"
definition WarnLevel :: Level where "WarnLevel = 3"
definition ErrorLevel :: Level where "ErrorLevel = 4"
definition FatalLevel :: Level where "FatalLevel = 5"

record Config =
  Level :: Level
  OutputPath :: string
  Development :: bool
  AddCaller :: bool
  AddStacktrace :: bool

definition DefaultConfig :: Config where
  "DefaultConfig =
     \<lparr>Level = InfoLevel, OutputPath = '''', Development = False,
      AddCaller = True, AddStacktrace = True\<rparr>"

text \<open>The error value \<open>New\<close> wraps around a failed \<open>os.OpenFile\<close>, with the path tried.\<close>

datatype gerror = FailedToOpenLogFile string

text \<open>
  \<open>New\<close> dereferences its \<open>*Config\<close>, picks the engine's level (Info unless the
  configured level is one of the six constants), and in production mode with an output
  path opens the file. Whether a path can be opened is the file system's answer and is the
  parameter \<open>openable\<close>. On success a new engine and a new Logger with no fields are
  allocated.
\<close>

definition New :: "(string \<Rightarrow> bool) \<Rightarrow> world \<Rightarrow> Config option \<Rightarrow> panic + ((ptr \<times> gerror option) \<times> world)" where
  "New openable w config =
     (case config of
        None \<Rightarrow> Inl NilPointerDereference
      | Some c \<Rightarrow>
          (let zapLevel =
                 (if Level c = TraceLevel then ZapDebug
                  else if Level c = DebugLevel then ZapDebug
                  else if Level c = InfoLevel then ZapInfo
                  else if Level c = WarnLevel then ZapWarn
                  else if Level c = ErrorLevel then ZapError
                  else if Level c = FatalLevel then ZapFatal
                  else ZapInfo);
               core =
                 (if Development c then Inr (ConsoleEncoder, Stdout)
                  else if OutputPath c \<noteq> '''' then
                    (if openable (OutputPath c) then Inr (JSONEncoder, File (OutputPath c))
                     else Inl (FailedToOpenLogFile (OutputPath c)))
                  else Inr (JSONEncoder, Stdout))
           in case core of
                Inl err \<Rightarrow> Inr ((None, Some err), w)
              | Inr (enc, out) \<Rightarrow>
                  (let zapLogger' =
                         \<lparr>core_encoder = enc, core_output = out, core_level = zapLevel,
                          opt_caller = AddCaller c, opt_stacktrace = AddStacktrace c,
                          received = []\<rparr>;
                       w1 = w\<lparr>engines := engines w @ [zapLogger']\<rparr>;
                       lg = \<lparr>zapLogger = Some (length (engines w)), fields' = []\<rparr>
                   in Inr ((Some (length (loggers w1)), None), w1\<lparr>loggers := loggers w1 @ [lg]\<rparr>))))"

text \<open>
  \<open>Init\<close>: the local \<open>err\<close> starts as nil; \<open>once.Do\<close> runs the closure on the first call
  only, and the closure is what assigns \<open>defaultLogger\<close> and \<open>err\<close>.
\<close>

definition Init :: "(string \<Rightarrow> bool) \<Rightarrow> world \<Rightarrow> Config option \<Rightarrow> panic + (gerror option \<times> world)" where
  "Init openable w config =
     (let err = None in
      if once_done w then Inr (err, w)
      else
        (case New openable w config of
           Inl e \<Rightarrow> Inl e
         | Inr ((lg, err), w1) \<Rightarrow> Inr (err, w1\<lparr>defaultLogger := lg, once_done := True\<rparr>)))"

definition InitDefault :: "(string \<Rightarrow> bool) \<Rightarrow> world \<Rightarrow> panic + (gerror option \<times> world)" where
  "InitDefault openable w = Init openable w (Some DefaultConfig)"

text \<open>The process at start: the built-in registry, nothing allocated, the latch open.\<close>

definition world0 :: world where
  "world0 =
     \<lparr>sensitive = sensitiveKeys, loggers = [], engines = [], defaultLogger = None,
      once_done = False\<rparr>"

section \<open>Notions of the specification\<close>

text \<open>
  Two keys differ only in the case of ASCII letters when they have the same length and
  agree position by position up to the case of the letters \<open>A..Z\<close>.
\<close>

definition asciiCaseVariant :: "string \<Rightarrow> string \<Rightarrow> bool" where
  "asciiCaseVariant k k' = list_all2 (\<lambda>a b. lowerByte a = lowerByte b) k k'"

text \<open>Lowercase ASCII text: every byte is below 0x80 and none is an upper-case letter.\<close>

definition lowercaseASCII :: "string \<Rightarrow> bool" where
  "lowercaseASCII k = list_all (\<lambda>c. (of_char c :: nat) < 128 \<and> \<not> isUpper c) k"

text \<open>
  The Greek letter sigma has three forms: capital (U+03A3, bytes CE A3), small (U+03C3,
  bytes CF 83) and final (U+03C2, bytes CF 82), the last two both lower-case. On text made
  of ASCII characters and these three letters, \<open>strings.Map(unicode.ToLower, s)\<close> lowers
  the ASCII letters, turns the capital sigma into the small one and keeps everything else,
  and \<open>strings.ToUpper\<close> raises the ASCII letters and turns the small and the final sigma
  into the capital one. The two functions below are these library functions on such text;
  they stand in for them in closed examples, and are used on such text only.
\<close>

fun sigmaMapLower :: mapper where
  "sigmaMapLower (a # b # cs) =
     (if a = CHR 0xCE \<and> b = CHR 0xA3 then CHR 0xCF # CHR 0x83 # sigmaMapLower cs
      else lowerByte a # sigmaMapLower (b # cs))"
| "sigmaMapLower [a] = [lowerByte a]"
| "sigmaMapLower [] = []"

definition upperByte :: "char \<Rightarrow> char" where
  "upperByte c =
     (if 97 \<le> (of_char c :: nat) \<and> (of_char c :: nat) \<le> 122
      then char_of ((of_char c :: nat) - 32) else c)"

fun sigmaToUpper :: "string \<Rightarrow> string" where
  "sigmaToUpper (a # b # cs) =
     (if a = CHR 0xCF \<and> (b = CHR 0x83 \<or> b = CHR 0x82) then CHR 0xCE # CHR 0xA3 # sigmaToUpper cs
      else upperByte a # sigmaToUpper (b # cs))"
| "sigmaToUpper [a] = [upperByte a]"
| "sigmaToUpper [] = []"

text \<open>The registry after a sequence of add and remove calls.\<close>

datatype regop = Add string | Remove string

fun registryAfter :: "mapper \<Rightarrow> regop list \<Rightarrow> registry \<Rightarrow> registry" where
  "registryAfter mapLower [] reg = reg"
| "registryAfter mapLower (Add k # ops) reg = registryAfter mapLower ops (AddSensitiveKey mapLower k reg)"
| "registryAfter mapLower (Remove k # ops) reg = registryAfter mapLower ops (RemoveSensitiveKey mapLower k reg)"




text \<open>The two dynamic types the type switch of \<open>maskSensitiveData\<close> names.\<close>

definition isText :: "gvalue \<Rightarrow> bool" where
  "isText v = (case v of VString s \<Rightarrow> True | _ \<Rightarrow> False)"

definition isByteSequence :: "gvalue \<Rightarrow> bool" where
  "isByteSequence v = (case v of VBytes b \<Rightarrow> True | _ \<Rightarrow> False)"

text \<open>A file system in which no path can be opened, and one in which every path can.\<close>

definition noFile :: "string \<Rightarrow> bool" where
  "noFile path = False"

definition anyFile :: "string \<Rightarrow> bool" where
  "anyFile path = True"

text \<open>
  \<open>fmt.Sprintf\<close> applied to a template without verbs and to no arguments returns the
  template; this stand-in is used at such inputs only.
\<close>

definition verbatimSprintf :: sprintf where
  "verbatimSprintf format args = format"

text \<open>A process with one engine and one Logger that carries a sticky field, for examples.\<close>

definition exampleWorld :: world where
  "exampleWorld =
     \<lparr>sensitive = sensitiveKeys,
      loggers = [\<lparr>zapLogger = Some 0, fields' = [\<lparr>Key = ''service'', Value = VString ''api''\<rparr>]\<rparr>],
      engines = [\<lparr>core_encoder = JSONEncoder, core_output = Stdout, core_level = ZapInfo,
                 opt_caller = True, opt_stacktrace = True, received = []\<rparr>],
      defaultLogger = None, once_done = False\<rparr>"

section \<open>Auxiliary facts\<close>

subsection \<open>Masking\<close>

text \<open>
  The slice expressions of \<open>maskString\<close> are always in range, so it never panics, and
  its result is given by the byte length of its argument.
\<close>

lemma maskString_bands:
  "maskString v = Inr
     (if length v = 0 then ''''
      else if length v \<le> 2 then ''***''
      else if length v \<le> 4 then take 1 v @ ''***'' @ drop (length v - 1) v
      else take 2 v @ ''***'' @ drop (length v - 2) v)"
  by (simp add: maskString_def slice_def)

lemma maskSensitiveData_total: "\<exists>r. maskSensitiveData mapLower reg k v = Inr r"
  by (cases v) (simp_all add: maskSensitiveData_def maskString_bands)

text \<open>Keys of the built-in registry used in the examples.\<close>

lemma password_sensitive: "isSensitiveKey mapLower sensitiveKeys ''password''"
  by code_simp

lemma token_sensitive: "isSensitiveKey mapLower sensitiveKeys ''token''"
  by code_simp

lemma secret_sensitive: "isSensitiveKey mapLower sensitiveKeys ''Secret''"
  by code_simp

lemma username_not_sensitive: "\<not> isSensitiveKey mapLower sensitiveKeys ''username''"
  by code_simp

lemma service_not_sensitive: "\<not> isSensitiveKey mapLower sensitiveKeys ''service''"
  by code_simp

subsection \<open>Lower-casing and the registry\<close>

lemma ToLower_ascii: "isASCII s \<Longrightarrow> ToLower mapLower s = map lowerByte s"
  by (simp add: ToLower_def)

lemma lowerByte_ascii_iff: "(of_char (lowerByte c) :: nat) < 128 \<longleftrightarrow> (of_char c :: nat) < 128"
  by (simp add: lowerByte_def isUpper_def)

lemma not_upper_lowerByte: "\<not> isUpper (lowerByte c)"
  by (simp add: lowerByte_def isUpper_def)

lemma asciiCaseVariant_map: "asciiCaseVariant k k' \<Longrightarrow> map lowerByte k' = map lowerByte k"
  unfolding asciiCaseVariant_def
  by (induction k k' rule: list_all2_induct) auto

lemma asciiCaseVariant_isASCII: "asciiCaseVariant k k' \<Longrightarrow> isASCII k \<Longrightarrow> isASCII k'"
  unfolding asciiCaseVariant_def isASCII_def
proof (induction k k' rule: list_all2_induct)
  case Nil
  then show ?case by simp
next
  case (Cons a k b k')
  have "(of_char b :: nat) < 128"
    using Cons.hyps(1) Cons.prems lowerByte_ascii_iff [of a] lowerByte_ascii_iff [of b] by simp
  then show ?case using Cons by simp
qed

lemma asciiCaseVariant_ToLower:
  "isASCII k \<Longrightarrow> asciiCaseVariant k k' \<Longrightarrow> ToLower mapLower k' = ToLower mapLower k"
  using asciiCaseVariant_isASCII [of k k'] asciiCaseVariant_map [of k k']
  by (simp add: ToLower_ascii)

lemma lowercaseASCII_ToLower: "isASCII k \<Longrightarrow> lowercaseASCII (ToLower mapLower k)"
  by (simp add: ToLower_ascii lowercaseASCII_def isASCII_def list_all_iff
        not_upper_lowerByte lowerByte_ascii_iff)

lemma sensitiveKeys_lower: "k \<in> dom sensitiveKeys \<Longrightarrow> lowercaseASCII k"
  unfolding sensitiveKeys_def
  apply (simp add: dom_map_of_conv_image_fst)
  apply (elim disjE)
  apply (simp_all add: lowercaseASCII_def isUpper_def)
  done

lemma registryAfter_stored:
  "\<forall>s \<in> dom (registryAfter mapLower ops reg).
      s \<in> dom reg \<or> (\<exists>a. Add a \<in> set ops \<and> s = ToLower mapLower a)"
proof (induction mapLower ops reg rule: registryAfter.induct)
  case (1 mapLower reg)
  then show ?case by simp
next
  case (2 mapLower k ops reg)
  show ?case
  proof
    fix s
    assume "s \<in> dom (registryAfter mapLower (Add k # ops) reg)"
    then have "s \<in> dom (AddSensitiveKey mapLower k reg) \<or>
               (\<exists>a. Add a \<in> set ops \<and> s = ToLower mapLower a)"
      using 2 by simp
    then show "s \<in> dom reg \<or> (\<exists>a. Add a \<in> set (Add k # ops) \<and> s = ToLower mapLower a)"
      by (auto simp: AddSensitiveKey_def split: if_splits)
  qed
next
  case (3 mapLower k ops reg)
  show ?case
  proof
    fix s
    assume "s \<in> dom (registryAfter mapLower (Remove k # ops) reg)"
    then have "s \<in> dom (RemoveSensitiveKey mapLower k reg) \<or>
               (\<exists>a. Add a \<in> set ops \<and> s = ToLower mapLower a)"
      using 3 by simp
    then show "s \<in> dom reg \<or> (\<exists>a. Add a \<in> set (Remove k # ops) \<and> s = ToLower mapLower a)"
      by (auto simp: RemoveSensitiveKey_def split: if_splits)
  qed
qed

lemma session_ascii: "isASCII ''Session_ID''"
  by code_simp

lemma variant_example: "asciiCaseVariant ''Session_ID'' ''SESSION_id''"
  by code_simp

lemma stored_example:
  "registryAfter sigmaMapLower [Add ''Session_ID'', Remove ''EMAIL''] sensitiveKeys ''session_id''
     = Some True"
  by code_simp

lemma stored_lowercase_example: "lowercaseASCII ''session_id''"
  by code_simp

subsection \<open>Characters of ASCII text\<close>





subsection \<open>Field conversion and emission\<close>

text \<open>
  \<open>convertFields\<close> never panics; it keeps the length, the order and the keys of its
  argument and replaces each value by its masked form.
\<close>

lemma convertFields_ok:
  "\<exists>zs. convertFields mapLower reg fs = Inr zs \<and>
        list_all2 (\<lambda>f z. fst z = Key f \<and> maskSensitiveData mapLower reg (Key f) (Value f) = Inr (snd z)) fs zs"
proof (induction fs)
  case Nil then show ?case by simp
next
  case (Cons f fs)
  obtain r where "maskSensitiveData mapLower reg (Key f) (Value f) = Inr r"
    using maskSensitiveData_total by blast
  with Cons show ?case by auto
qed

lemma convertFields_append:
  "convertFields mapLower reg xs = Inr zs \<Longrightarrow> convertFields mapLower reg ys = Inr zs' \<Longrightarrow>
   convertFields mapLower reg (xs @ ys) = Inr (zs @ zs')"
  by (induction xs arbitrary: zs) (auto split: sum.splits)

lemma zapLog_ok:
  "h < length (engines w) \<Longrightarrow>
   zapLog lvl w (Some h) msg zs = Inr (handed w h \<lparr>zlevel = lvl, zmsg = msg, zfields = zs\<rparr>)"
  by (simp add: zapLog_def)

lemma plain_methods_emit:
  assumes "deref (loggers w) l = Inr lg" and "zapLogger lg = Some h" and "h < length (engines w)"
    and "convertFields mapLower (sensitive w) (fields' lg @ fs) = Inr zs"
  shows "Trace mapLower w l m fs = Inr (handed w h \<lparr>zlevel = ZapDebug, zmsg = m, zfields = zs\<rparr>)"
    and "Debug mapLower w l m fs = Inr (handed w h \<lparr>zlevel = ZapDebug, zmsg = m, zfields = zs\<rparr>)"
    and "Info mapLower w l m fs = Inr (handed w h \<lparr>zlevel = ZapInfo, zmsg = m, zfields = zs\<rparr>)"
    and "Warn mapLower w l m fs = Inr (handed w h \<lparr>zlevel = ZapWarn, zmsg = m, zfields = zs\<rparr>)"
    and "Error mapLower w l m fs = Inr (handed w h \<lparr>zlevel = ZapError, zmsg = m, zfields = zs\<rparr>)"
    and "Fatal mapLower w l m fs = Inr (handed w h \<lparr>zlevel = ZapFatal, zmsg = m, zfields = zs\<rparr>)"
  using assms
  by (simp_all add: Trace_def Debug_def Info_def Warn_def Error_def Fatal_def zapLog_ok)

subsection \<open>Pointers, construction and the example process\<close>

lemma deref_append: "deref heap p = Inr x \<Longrightarrow> deref (heap @ extra) p = Inr x"
  by (auto simp: deref_def nth_append split: option.splits if_splits)

lemma New_result:
  "New fs w (Some c) = Inr ((lg, e), wN) \<Longrightarrow>
     (e \<noteq> None \<longrightarrow> lg = None \<and> wN = w) \<and>
     (e = None \<longrightarrow>
        lg = Some (length (loggers w)) \<and>
        deref (loggers wN) lg = Inr \<lparr>zapLogger = Some (length (engines w)), fields' = []\<rparr> \<and>
        deref (engines wN) (Some (length (engines w))) =
          Inr \<lparr>core_encoder = (if Development c then ConsoleEncoder else JSONEncoder),
               core_output = (if Development c \<or> OutputPath c = [] then Stdout else File (OutputPath c)),
               core_level = (if Level c = WarnLevel then ZapWarn
                             else if Level c = ErrorLevel then ZapError
                             else if Level c = FatalLevel then ZapFatal
                             else if Level c = TraceLevel \<or> Level c = DebugLevel then ZapDebug
                             else ZapInfo),
               opt_caller = AddCaller c, opt_stacktrace = AddStacktrace c, received = []\<rparr>)"
  by (auto simp: New_def Let_def deref_def TraceLevel_def DebugLevel_def InfoLevel_def
        WarnLevel_def ErrorLevel_def FatalLevel_def split: if_splits)

lemma world0_open: "\<not> once_done world0"
  by (simp add: world0_def)

lemma Init_world0_default:
  "Init anyFile world0 (Some DefaultConfig) =
     Inr (None, world0\<lparr>loggers := [\<lparr>zapLogger = Some 0, fields' = []\<rparr>],
                       engines := [\<lparr>core_encoder = JSONEncoder, core_output = Stdout,
                                    core_level = ZapInfo, opt_caller = True,
                                    opt_stacktrace = True, received = []\<rparr>],
                       defaultLogger := Some 0, once_done := True\<rparr>)"
  by (simp add: Init_def New_def world0_def DefaultConfig_def Let_def
        TraceLevel_def DebugLevel_def InfoLevel_def)

lemma exampleWorld_logger:
  "deref (loggers exampleWorld) (Some 0) =
     Inr \<lparr>zapLogger = Some 0, fields' = [\<lparr>Key = ''service'', Value = VString ''api''\<rparr>]\<rparr>"
  by (simp add: exampleWorld_def deref_def)

lemma exampleWorld_engine: "0 < length (engines exampleWorld)"
  by (simp add: exampleWorld_def)

lemma exampleWorld_sensitive: "sensitive exampleWorld = sensitiveKeys"
  by (simp add: exampleWorld_def)

section \<open>The claims\<close>

text \<open>
  C1. Through a valid Logger, each of Trace, Debug, Info, Warn, Error and Fatal hands the
  engine one entry whose fields are the Logger's sticky fields followed by the call-site
  fields: same length, same order, same keys (repeated keys are kept), and every value
  replaced by \<open>maskSensitiveData\<close> of its key and value. Trace uses the engine's Debug
  severity.
\<close>

theorem leveled_methods_emit_masked_concatenation:
  assumes "deref (loggers w) l = Inr lg" and "zapLogger lg = Some h" and "h < length (engines w)"
  shows "\<exists>zs. list_all2 (\<lambda>f z. fst z = Key f \<and>
                      maskSensitiveData mapLower (sensitive w) (Key f) (Value f) = Inr (snd z))
                 (fields' lg @ fs) zs \<and>
          Trace mapLower w l m fs = Inr (handed w h \<lparr>zlevel = ZapDebug, zmsg = m, zfields = zs\<rparr>) \<and>
          Debug mapLower w l m fs = Inr (handed w h \<lparr>zlevel = ZapDebug, zmsg = m, zfields = zs\<rparr>) \<and>
          Info mapLower w l m fs = Inr (handed w h \<lparr>zlevel = ZapInfo, zmsg = m, zfields = zs\<rparr>) \<and>
          Warn mapLower w l m fs = Inr (handed w h \<lparr>zlevel = ZapWarn, zmsg = m, zfields = zs\<rparr>) \<and>
          Error mapLower w l m fs = Inr (handed w h \<lparr>zlevel = ZapError, zmsg = m, zfields = zs\<rparr>) \<and>
          Fatal mapLower w l m fs = Inr (handed w h \<lparr>zlevel = ZapFatal, zmsg = m, zfields = zs\<rparr>)"
proof -
  obtain zs where c: "convertFields mapLower (sensitive w) (fields' lg @ fs) = Inr zs"
    and m: "list_all2 (\<lambda>f z. fst z = Key f \<and>
                      maskSensitiveData mapLower (sensitive w) (Key f) (Value f) = Inr (snd z))
                 (fields' lg @ fs) zs"
    using convertFields_ok by blast
  show ?thesis
    using m plain_methods_emit [OF assms c] by blast
qed

theorem leveled_methods_emit_masked_concatenation_witness:
  "Info sigmaMapLower exampleWorld (Some 0) ''login''
     [\<lparr>Key = ''password'', Value = VString ''secret123''\<rparr>, \<lparr>Key = ''service'', Value = VString ''web''\<rparr>]
   = Inr (handed exampleWorld 0
       \<lparr>zlevel = ZapInfo, zmsg = ''login'',
        zfields = [(''service'', VString ''api''), (''password'', VString ''se***23''),
                   (''service'', VString ''web'')]\<rparr>)"
proof -
  have "\<exists>zs. list_all2 (\<lambda>f z. fst z = Key f \<and>
                      maskSensitiveData sigmaMapLower (sensitive exampleWorld) (Key f) (Value f) = Inr (snd z))
                 (fields' \<lparr>zapLogger = Some 0, fields' = [\<lparr>Key = ''service'', Value = VString ''api''\<rparr>]\<rparr> @
                   [\<lparr>Key = ''password'', Value = VString ''secret123''\<rparr>, \<lparr>Key = ''service'', Value = VString ''web''\<rparr>]) zs \<and>
          Info sigmaMapLower exampleWorld (Some 0) ''login''
            [\<lparr>Key = ''password'', Value = VString ''secret123''\<rparr>, \<lparr>Key = ''service'', Value = VString ''web''\<rparr>]
           = Inr (handed exampleWorld 0 \<lparr>zlevel = ZapInfo, zmsg = ''login'', zfields = zs\<rparr>)"
    using leveled_methods_emit_masked_concatenation [OF exampleWorld_logger _ exampleWorld_engine,
        where mapLower = sigmaMapLower and m = "''login''" and
          fs = "[\<lparr>Key = ''password'', Value = VString ''secret123''\<rparr>, \<lparr>Key = ''service'', Value = VString ''web''\<rparr>]"]
    by auto
  then obtain zs where
    l: "list_all2 (\<lambda>f z. fst z = Key f \<and>
                      maskSensitiveData sigmaMapLower sensitiveKeys (Key f) (Value f) = Inr (snd z))
          [\<lparr>Key = ''service'', Value = VString ''api''\<rparr>,
           \<lparr>Key = ''password'', Value = VString ''secret123''\<rparr>, \<lparr>Key = ''service'', Value = VString ''web''\<rparr>] zs"
    and i: "Info sigmaMapLower exampleWorld (Some 0) ''login''
            [\<lparr>Key = ''password'', Value = VString ''secret123''\<rparr>, \<lparr>Key = ''service'', Value = VString ''web''\<rparr>]
           = Inr (handed exampleWorld 0 \<lparr>zlevel = ZapInfo, zmsg = ''login'', zfields = zs\<rparr>)"
    by (auto simp: exampleWorld_sensitive)
  have "zs = [(''service'', VString ''api''), (''password'', VString ''se***23''),
                   (''service'', VString ''web'')]"
  proof -
    have m1: "maskSensitiveData sigmaMapLower sensitiveKeys ''service'' v = Inr v" for v
      using service_not_sensitive by (simp add: maskSensitiveData_def)
    have m2: "maskSensitiveData sigmaMapLower sensitiveKeys ''password'' (VString ''secret123'') = Inr (VString ''se***23'')"
      using password_sensitive by (simp add: maskSensitiveData_def maskString_bands)
    show ?thesis using l by (auto simp: list_all2_Cons1 m1 m2)
  qed
  with i show ?thesis by simp
qed




text \<open>
  C3. Under a key that is not sensitive, \<open>maskSensitiveData\<close> returns the value it was
  given, whatever its dynamic type.
\<close>

theorem nonsensitive_identity:
  "\<not> isSensitiveKey mapLower reg k \<Longrightarrow> maskSensitiveData mapLower reg k v = Inr v"
  by (simp add: maskSensitiveData_def)

theorem nonsensitive_identity_witness:
  "\<not> isSensitiveKey sigmaMapLower sensitiveKeys ''username'' \<and>
   maskSensitiveData sigmaMapLower sensitiveKeys ''username'' (VBytes ''john_doe'') = Inr (VBytes ''john_doe'')"
  using nonsensitive_identity [where mapLower = sigmaMapLower and v = "VBytes ''john_doe''",
      OF username_not_sensitive]
    username_not_sensitive by simp

text \<open>
  C4. Each formatted method is the plain method of the same severity called with the
  message \<open>Sprintf(format, args)\<close> and no call-site fields. Through a valid Logger the
  entry handed to the engine carries that message, built from the arguments as given, and
  the masked sticky fields only; whereas a non-empty text passed as a field under a
  sensitive key reaches the engine masked by \<open>maskString\<close>.
\<close>

theorem formatted_methods_refine_plain:
  "Tracef S mapLower w l f args = Trace mapLower w l (S f args) [] \<and>
         Debugf S mapLower w l f args = Debug mapLower w l (S f args) [] \<and>
         Infof S mapLower w l f args = Info mapLower w l (S f args) [] \<and>
         Warnf S mapLower w l f args = Warn mapLower w l (S f args) [] \<and>
         Errorf S mapLower w l f args = Error mapLower w l (S f args) [] \<and>
         Fatalf S mapLower w l f args = Fatal mapLower w l (S f args) [] \<and>
         (deref (loggers w) l = Inr lg \<and> zapLogger lg = Some h \<and> h < length (engines w) \<longrightarrow>
          (\<exists>zs. list_all2 (\<lambda>f z. fst z = Key f \<and>
                      maskSensitiveData mapLower (sensitive w) (Key f) (Value f) = Inr (snd z))
                  (fields' lg) zs \<and>
            Tracef S mapLower w l f args = Inr (handed w h \<lparr>zlevel = ZapDebug, zmsg = S f args, zfields = zs\<rparr>) \<and>
            Debugf S mapLower w l f args = Inr (handed w h \<lparr>zlevel = ZapDebug, zmsg = S f args, zfields = zs\<rparr>) \<and>
            Infof S mapLower w l f args = Inr (handed w h \<lparr>zlevel = ZapInfo, zmsg = S f args, zfields = zs\<rparr>) \<and>
            Warnf S mapLower w l f args = Inr (handed w h \<lparr>zlevel = ZapWarn, zmsg = S f args, zfields = zs\<rparr>) \<and>
            Errorf S mapLower w l f args = Inr (handed w h \<lparr>zlevel = ZapError, zmsg = S f args, zfields = zs\<rparr>) \<and>
            Fatalf S mapLower w l f args = Inr (handed w h \<lparr>zlevel = ZapFatal, zmsg = S f args, zfields = zs\<rparr>) \<and>
            (\<forall>k v msg. isSensitiveKey mapLower (sensitive w) k \<and> v \<noteq> [] \<longrightarrow>
               (\<exists>m. maskString v = Inr m \<and>
                  Trace mapLower w l msg [\<lparr>Key = k, Value = VString v\<rparr>] =
                    Inr (handed w h \<lparr>zlevel = ZapDebug, zmsg = msg, zfields = zs @ [(k, VString m)]\<rparr>) \<and>
                  Debug mapLower w l msg [\<lparr>Key = k, Value = VString v\<rparr>] =
                    Inr (handed w h \<lparr>zlevel = ZapDebug, zmsg = msg, zfields = zs @ [(k, VString m)]\<rparr>) \<and>
                  Info mapLower w l msg [\<lparr>Key = k, Value = VString v\<rparr>] =
                    Inr (handed w h \<lparr>zlevel = ZapInfo, zmsg = msg, zfields = zs @ [(k, VString m)]\<rparr>) \<and>
                  Warn mapLower w l msg [\<lparr>Key = k, Value = VString v\<rparr>] =
                    Inr (handed w h \<lparr>zlevel = ZapWarn, zmsg = msg, zfields = zs @ [(k, VString m)]\<rparr>) \<and>
                  Error mapLower w l msg [\<lparr>Key = k, Value = VString v\<rparr>] =
                    Inr (handed w h \<lparr>zlevel = ZapError, zmsg = msg, zfields = zs @ [(k, VString m)]\<rparr>) \<and>
                  Fatal mapLower w l msg [\<lparr>Key = k, Value = VString v\<rparr>] =
                    Inr (handed w h \<lparr>zlevel = ZapFatal, zmsg = msg, zfields = zs @ [(k, VString m)]\<rparr>)))))"
proof -
  have eqs: "Tracef S mapLower w l f args = Trace mapLower w l (S f args) []"
    "Debugf S mapLower w l f args = Debug mapLower w l (S f args) []"
    "Infof S mapLower w l f args = Info mapLower w l (S f args) []"
    "Warnf S mapLower w l f args = Warn mapLower w l (S f args) []"
    "Errorf S mapLower w l f args = Error mapLower w l (S f args) []"
    "Fatalf S mapLower w l f args = Fatal mapLower w l (S f args) []"
    by (simp_all add: Tracef_def Debugf_def Infof_def Warnf_def Errorf_def Fatalf_def)
  have rest: "\<exists>zs. list_all2 (\<lambda>f z. fst z = Key f \<and>
                      maskSensitiveData mapLower (sensitive w) (Key f) (Value f) = Inr (snd z))
                  (fields' lg) zs \<and>
            Trace mapLower w l (S f args) [] = Inr (handed w h \<lparr>zlevel = ZapDebug, zmsg = S f args, zfields = zs\<rparr>) \<and>
            Debug mapLower w l (S f args) [] = Inr (handed w h \<lparr>zlevel = ZapDebug, zmsg = S f args, zfields = zs\<rparr>) \<and>
            Info mapLower w l (S f args) [] = Inr (handed w h \<lparr>zlevel = ZapInfo, zmsg = S f args, zfields = zs\<rparr>) \<and>
            Warn mapLower w l (S f args) [] = Inr (handed w h \<lparr>zlevel = ZapWarn, zmsg = S f args, zfields = zs\<rparr>) \<and>
            Error mapLower w l (S f args) [] = Inr (handed w h \<lparr>zlevel = ZapError, zmsg = S f args, zfields = zs\<rparr>) \<and>
            Fatal mapLower w l (S f args) [] = Inr (handed w h \<lparr>zlevel = ZapFatal, zmsg = S f args, zfields = zs\<rparr>) \<and>
            (\<forall>k v msg. isSensitiveKey mapLower (sensitive w) k \<and> v \<noteq> [] \<longrightarrow>
               (\<exists>m. maskString v = Inr m \<and>
                  Trace mapLower w l msg [\<lparr>Key = k, Value = VString v\<rparr>] =
                    Inr (handed w h \<lparr>zlevel = ZapDebug, zmsg = msg, zfields = zs @ [(k, VString m)]\<rparr>) \<and>
                  Debug mapLower w l msg [\<lparr>Key = k, Value = VString v\<rparr>] =
                    Inr (handed w h \<lparr>zlevel = ZapDebug, zmsg = msg, zfields = zs @ [(k, VString m)]\<rparr>) \<and>
                  Info mapLower w l msg [\<lparr>Key = k, Value = VString v\<rparr>] =
                    Inr (handed w h \<lparr>zlevel = ZapInfo, zmsg = msg, zfields = zs @ [(k, VString m)]\<rparr>) \<and>
                  Warn mapLower w l msg [\<lparr>Key = k, Value = VString v\<rparr>] =
                    Inr (handed w h \<lparr>zlevel = ZapWarn, zmsg = msg, zfields = zs @ [(k, VString m)]\<rparr>) \<and>
                  Error mapLower w l msg [\<lparr>Key = k, Value = VString v\<rparr>] =
                    Inr (handed w h \<lparr>zlevel = ZapError, zmsg = msg, zfields = zs @ [(k, VString m)]\<rparr>) \<and>
                  Fatal mapLower w l msg [\<lparr>Key = k, Value = VString v\<rparr>] =
                    Inr (handed w h \<lparr>zlevel = ZapFatal, zmsg = msg, zfields = zs @ [(k, VString m)]\<rparr>)))"
    if assms: "deref (loggers w) l = Inr lg" "zapLogger lg = Some h" "h < length (engines w)"
  proof -
  obtain zs where c: "convertFields mapLower (sensitive w) (fields' lg) = Inr zs"
    and m: "list_all2 (\<lambda>f z. fst z = Key f \<and>
                      maskSensitiveData mapLower (sensitive w) (Key f) (Value f) = Inr (snd z))
                 (fields' lg) zs"
    using convertFields_ok by blast
  have c0: "convertFields mapLower (sensitive w) (fields' lg @ []) = Inr zs"
    using c by simp
  note plain = plain_methods_emit [OF assms c0, of "S f args"]
  have contrast: "\<exists>m. maskString v = Inr m \<and>
                  Trace mapLower w l msg [\<lparr>Key = k, Value = VString v\<rparr>] =
                    Inr (handed w h \<lparr>zlevel = ZapDebug, zmsg = msg, zfields = zs @ [(k, VString m)]\<rparr>) \<and>
                  Debug mapLower w l msg [\<lparr>Key = k, Value = VString v\<rparr>] =
                    Inr (handed w h \<lparr>zlevel = ZapDebug, zmsg = msg, zfields = zs @ [(k, VString m)]\<rparr>) \<and>
                  Info mapLower w l msg [\<lparr>Key = k, Value = VString v\<rparr>] =
                    Inr (handed w h \<lparr>zlevel = ZapInfo, zmsg = msg, zfields = zs @ [(k, VString m)]\<rparr>) \<and>
                  Warn mapLower w l msg [\<lparr>Key = k, Value = VString v\<rparr>] =
                    Inr (handed w h \<lparr>zlevel = ZapWarn, zmsg = msg, zfields = zs @ [(k, VString m)]\<rparr>) \<and>
                  Error mapLower w l msg [\<lparr>Key = k, Value = VString v\<rparr>] =
                    Inr (handed w h \<lparr>zlevel = ZapError, zmsg = msg, zfields = zs @ [(k, VString m)]\<rparr>) \<and>
                  Fatal mapLower w l msg [\<lparr>Key = k, Value = VString v\<rparr>] =
                    Inr (handed w h \<lparr>zlevel = ZapFatal, zmsg = msg, zfields = zs @ [(k, VString m)]\<rparr>)"
    if s: "isSensitiveKey mapLower (sensitive w) k" and ne: "v \<noteq> []" for k v msg
  proof -
    obtain mv where mv: "maskString v = Inr mv"
      by (simp add: maskString_bands)
    have "convertFields mapLower (sensitive w) [\<lparr>Key = k, Value = VString v\<rparr>] = Inr [(k, VString mv)]"
      using s ne mv by (simp add: maskSensitiveData_def)
    then have c1: "convertFields mapLower (sensitive w) (fields' lg @ [\<lparr>Key = k, Value = VString v\<rparr>])
                    = Inr (zs @ [(k, VString mv)])"
      using convertFields_append [OF c] by blast
    show ?thesis
      using mv plain_methods_emit [OF assms c1, of msg] by blast
  qed
  show ?thesis
    using m plain contrast by blast
  qed
  show ?thesis
    unfolding eqs using rest by blast
qed

theorem formatted_methods_refine_plain_witness:
  "Infof verbatimSprintf sigmaMapLower exampleWorld (Some 0) ''password is secret123'' []
     = Inr (handed exampleWorld 0
         \<lparr>zlevel = ZapInfo, zmsg = ''password is secret123'',
          zfields = [(''service'', VString ''api'')]\<rparr>) \<and>
   Info sigmaMapLower exampleWorld (Some 0) ''login'' [\<lparr>Key = ''password'', Value = VString ''secret123''\<rparr>]
     = Inr (handed exampleWorld 0
         \<lparr>zlevel = ZapInfo, zmsg = ''login'',
          zfields = [(''service'', VString ''api''), (''password'', VString ''se***23'')]\<rparr>)"
proof -
  let ?lg = "\<lparr>zapLogger = Some 0, fields' = [\<lparr>Key = ''service'', Value = VString ''api''\<rparr>]\<rparr>"
  have m1: "maskSensitiveData sigmaMapLower sensitiveKeys ''service'' v = Inr v" for v
    using service_not_sensitive by (simp add: maskSensitiveData_def)
  have ms: "maskString ''secret123'' = Inr ''se***23''"
    by (simp add: maskString_bands)
  have zl: "zapLogger ?lg = Some 0" by simp
  from formatted_methods_refine_plain [of verbatimSprintf sigmaMapLower exampleWorld "Some 0"
        "''password is secret123''" "[]" ?lg 0] exampleWorld_logger zl exampleWorld_engine
  obtain zs where
    l: "list_all2 (\<lambda>f z. fst z = Key f \<and>
                      maskSensitiveData sigmaMapLower (sensitive exampleWorld) (Key f) (Value f) = Inr (snd z))
          (fields' ?lg) zs"
    and i: "Infof verbatimSprintf sigmaMapLower exampleWorld (Some 0) ''password is secret123'' []
           = Inr (handed exampleWorld 0
               \<lparr>zlevel = ZapInfo, zmsg = verbatimSprintf ''password is secret123'' [], zfields = zs\<rparr>)"
    and c: "\<forall>k v msg. isSensitiveKey sigmaMapLower (sensitive exampleWorld) k \<and> v \<noteq> [] \<longrightarrow>
               (\<exists>m. maskString v = Inr m \<and>
                  Info sigmaMapLower exampleWorld (Some 0) msg [\<lparr>Key = k, Value = VString v\<rparr>] =
                    Inr (handed exampleWorld 0 \<lparr>zlevel = ZapInfo, zmsg = msg, zfields = zs @ [(k, VString m)]\<rparr>))"
    by blast
  have z: "zs = [(''service'', VString ''api'')]"
    using l by (auto simp: list_all2_Cons1 exampleWorld_sensitive m1)
  have "\<exists>m. maskString ''secret123'' = Inr m \<and>
                  Info sigmaMapLower exampleWorld (Some 0) ''login'' [\<lparr>Key = ''password'', Value = VString ''secret123''\<rparr>] =
                    Inr (handed exampleWorld 0 \<lparr>zlevel = ZapInfo, zmsg = ''login'', zfields = zs @ [(''password'', VString m)]\<rparr>)"
    using c password_sensitive by (simp add: exampleWorld_sensitive)
  then show ?thesis using i z ms by (simp add: verbatimSprintf_def)
qed

text \<open>
  C5 (as amended). \<open>Init\<close> is a one-shot latch. A first call that returns closes the
  latch; it has run \<open>New\<close> on its configuration and stored the result in the slot:
  on success the slot holds a new Logger without fields on a new engine built from that
  configuration, on failure the slot is empty. Every later call, whatever file system
  and configuration it is given, changes nothing and returns no error.
\<close>

theorem Init_latch:
  assumes "\<not> once_done w" and "Init fs1 w c1 = Inr (e1, w1)"
  shows "once_done w1 \<and>
         (\<exists>c lg wN. c1 = Some c \<and> New fs1 w c1 = Inr ((lg, e1), wN) \<and>
                    w1 = wN\<lparr>defaultLogger := lg, once_done := True\<rparr> \<and>
            (e1 \<noteq> None \<longrightarrow> defaultLogger w1 = None) \<and>
            (e1 = None \<longrightarrow>
               defaultLogger w1 = Some (length (loggers w)) \<and>
               deref (loggers w1) (defaultLogger w1) =
                 Inr \<lparr>zapLogger = Some (length (engines w)), fields' = []\<rparr> \<and>
               deref (engines w1) (Some (length (engines w))) =
                 Inr \<lparr>core_encoder = (if Development c then ConsoleEncoder else JSONEncoder),
                      core_output = (if Development c \<or> OutputPath c = [] then Stdout
                                     else File (OutputPath c)),
                      core_level = (if Level c = WarnLevel then ZapWarn
                                    else if Level c = ErrorLevel then ZapError
                                    else if Level c = FatalLevel then ZapFatal
                                    else if Level c = TraceLevel \<or> Level c = DebugLevel then ZapDebug
                                    else ZapInfo),
                      opt_caller = AddCaller c, opt_stacktrace = AddStacktrace c,
                      received = []\<rparr>)) \<and>
         (\<forall>fs2 c2. Init fs2 w1 c2 = Inr (None, w1))"
proof -
  from assms obtain lg wN where n: "New fs1 w c1 = Inr ((lg, e1), wN)"
    and w1: "w1 = wN\<lparr>defaultLogger := lg, once_done := True\<rparr>"
    by (auto simp: Init_def split: sum.splits)
  from n obtain c where c: "c1 = Some c"
    by (cases c1) (simp_all add: New_def)
  have d: "once_done w1" using w1 by simp
  then have again: "\<forall>fs2 c2. Init fs2 w1 c2 = Inr (None, w1)"
    by (simp add: Init_def)
  note nr = New_result [OF n [unfolded c]]
  have f: "e1 \<noteq> None \<longrightarrow> defaultLogger w1 = None"
    using nr w1 by simp
  have s: "e1 = None \<longrightarrow>
               defaultLogger w1 = Some (length (loggers w)) \<and>
               deref (loggers w1) (defaultLogger w1) =
                 Inr \<lparr>zapLogger = Some (length (engines w)), fields' = []\<rparr> \<and>
               deref (engines w1) (Some (length (engines w))) =
                 Inr \<lparr>core_encoder = (if Development c then ConsoleEncoder else JSONEncoder),
                      core_output = (if Development c \<or> OutputPath c = [] then Stdout
                                     else File (OutputPath c)),
                      core_level = (if Level c = WarnLevel then ZapWarn
                                    else if Level c = ErrorLevel then ZapError
                                    else if Level c = FatalLevel then ZapFatal
                                    else if Level c = TraceLevel \<or> Level c = DebugLevel then ZapDebug
                                    else ZapInfo),
                      opt_caller = AddCaller c, opt_stacktrace = AddStacktrace c,
                      received = []\<rparr>"
    using nr w1 by auto
  show ?thesis using d c n w1 f s again by blast
qed

theorem Init_latch_witness:
  "\<not> once_done world0 \<and>
   Init noFile
     (world0\<lparr>loggers := [\<lparr>zapLogger = Some 0, fields' = []\<rparr>],
              engines := [\<lparr>core_encoder = JSONEncoder, core_output = Stdout,
                           core_level = ZapInfo, opt_caller = True,
                           opt_stacktrace = True, received = []\<rparr>],
              defaultLogger := Some 0, once_done := True\<rparr>)
     (Some (DefaultConfig\<lparr>Level := DebugLevel, OutputPath := ''/var/log/app.log''\<rparr>))
   = Inr (None,
      world0\<lparr>loggers := [\<lparr>zapLogger = Some 0, fields' = []\<rparr>],
              engines := [\<lparr>core_encoder = JSONEncoder, core_output = Stdout,
                           core_level = ZapInfo, opt_caller = True,
                           opt_stacktrace = True, received = []\<rparr>],
              defaultLogger := Some 0, once_done := True\<rparr>)"
  using Init_latch [OF world0_open Init_world0_default] world0_open by blast

text \<open>
  The error of a failed first attempt is not returned again: where no file can be opened,
  the first \<open>Init\<close> with an output path returns the error, the second returns nil, and
  the slot is empty.
\<close>

theorem Init_error_not_repeated:
  "Init noFile world0 (Some (DefaultConfig\<lparr>OutputPath := ''/var/log/app.log''\<rparr>))
     = Inr (Some (FailedToOpenLogFile ''/var/log/app.log''), world0\<lparr>once_done := True\<rparr>) \<and>
   Init noFile (world0\<lparr>once_done := True\<rparr>) (Some (DefaultConfig\<lparr>OutputPath := ''/var/log/app.log''\<rparr>))
     = Inr (None, world0\<lparr>once_done := True\<rparr>) \<and>
   defaultLogger (world0\<lparr>once_done := True\<rparr>) = None"
  by (simp add: Init_def New_def world0_def DefaultConfig_def noFile_def Let_def)

text \<open>
  C6 (as amended). Under a sensitive key a non-empty byte sequence is converted to text
  and masked by \<open>maskString\<close>, and the result is text; an empty byte sequence is returned
  as it is, still a byte sequence.
\<close>

theorem bytes_masking:
  "isSensitiveKey mapLower reg k \<Longrightarrow>
     (b \<noteq> [] \<longrightarrow> (\<exists>m. maskString b = Inr m \<and> maskSensitiveData mapLower reg k (VBytes b) = Inr (VString m))) \<and>
     (b = [] \<longrightarrow> maskSensitiveData mapLower reg k (VBytes b) = Inr (VBytes []))"
  by (simp add: maskSensitiveData_def maskString_bands)

theorem bytes_masking_witness:
  "isSensitiveKey sigmaMapLower sensitiveKeys ''token'' \<and>
   maskSensitiveData sigmaMapLower sensitiveKeys ''token'' (VBytes ''abc123'') = Inr (VString ''ab***23'')"
  using bytes_masking [where mapLower = sigmaMapLower and b = "''abc123''", OF token_sensitive] token_sensitive
  by (simp add: maskString_bands)

text \<open>The empty byte sequence under the sensitive key \<open>token\<close> does not come back as text.\<close>

theorem empty_bytes_stay_bytes:
  "isSensitiveKey sigmaMapLower sensitiveKeys ''token'' \<and>
   maskSensitiveData sigmaMapLower sensitiveKeys ''token'' (VBytes []) = Inr (VBytes []) \<and>
   maskSensitiveData sigmaMapLower sensitiveKeys ''token'' (VBytes []) \<noteq> Inr (VString [])"
  using token_sensitive by (simp add: maskSensitiveData_def)

text \<open>
  C7. \<open>maskSensitiveData\<close> returns a value, never a panic, for every registry, key and
  value; under a sensitive key a value that is neither text nor a byte sequence becomes
  the text \<open>***MASKED***\<close>.
\<close>

theorem masking_total_and_sentinel:
  "(\<exists>r. maskSensitiveData mapLower reg k v = Inr r) \<and>
   (isSensitiveKey mapLower reg k \<and> \<not> isText v \<and> \<not> isByteSequence v \<longrightarrow>
      maskSensitiveData mapLower reg k v = Inr (VString ''***MASKED***''))"
  by (cases v) (simp_all add: maskSensitiveData_def maskString_bands isText_def isByteSequence_def)

theorem masking_total_and_sentinel_witness:
  "isSensitiveKey sigmaMapLower sensitiveKeys ''Secret'' \<and> \<not> isText (VInt 12345) \<and> \<not> isByteSequence (VInt 12345) \<and>
   maskSensitiveData sigmaMapLower sensitiveKeys ''Secret'' (VInt 12345) = Inr (VString ''***MASKED***'')"
  using masking_total_and_sentinel [of sigmaMapLower sensitiveKeys "''Secret''" "VInt 12345"] secret_sensitive
  by (simp add: isText_def isByteSequence_def)

text \<open>
  C8. \<open>With\<close> on a valid parent allocates a Logger at an address not in use before; the
  child has the parent's engine handle and the parent's sticky fields followed by the
  given fields. Nothing else in the process changes: every Logger that existed, the parent
  among them, is as it was, and each leveled method through the parent still hands the
  engine the parent's sticky fields followed by the call-site fields only.
\<close>

theorem With_child_and_frame:
  assumes "deref (loggers w) p = Inr plg"
  shows "\<exists>w'. With w p f = Inr (Some (length (loggers w)), w') \<and>
           deref (loggers w) (Some (length (loggers w))) = Inl NilPointerDereference \<and>
           deref (loggers w') (Some (length (loggers w))) =
             Inr \<lparr>zapLogger = zapLogger plg, fields' = fields' plg @ f\<rparr> \<and>
           deref (loggers w') p = Inr plg \<and>
           w' = w\<lparr>loggers := loggers w' \<rparr> \<and>
           take (length (loggers w)) (loggers w') = loggers w \<and>
           (\<forall>h m cs. zapLogger plg = Some h \<and> h < length (engines w) \<longrightarrow>
              (\<exists>zs. list_all2 (\<lambda>f z. fst z = Key f \<and>
                          maskSensitiveData mapLower (sensitive w) (Key f) (Value f) = Inr (snd z))
                       (fields' plg @ cs) zs \<and>
                 Trace mapLower w' p m cs = Inr (handed w' h \<lparr>zlevel = ZapDebug, zmsg = m, zfields = zs\<rparr>) \<and>
                 Debug mapLower w' p m cs = Inr (handed w' h \<lparr>zlevel = ZapDebug, zmsg = m, zfields = zs\<rparr>) \<and>
                 Info mapLower w' p m cs = Inr (handed w' h \<lparr>zlevel = ZapInfo, zmsg = m, zfields = zs\<rparr>) \<and>
                 Warn mapLower w' p m cs = Inr (handed w' h \<lparr>zlevel = ZapWarn, zmsg = m, zfields = zs\<rparr>) \<and>
                 Error mapLower w' p m cs = Inr (handed w' h \<lparr>zlevel = ZapError, zmsg = m, zfields = zs\<rparr>) \<and>
                 Fatal mapLower w' p m cs = Inr (handed w' h \<lparr>zlevel = ZapFatal, zmsg = m, zfields = zs\<rparr>)))"
proof -
  define child where "child = \<lparr>zapLogger = zapLogger plg, fields' = fields' plg @ f\<rparr>"
  define w' where "w' = w\<lparr>loggers := loggers w @ [child]\<rparr>"
  have r: "With w p f = Inr (Some (length (loggers w)), w')"
    using assms by (simp add: With_def w'_def child_def)
  have fresh: "deref (loggers w) (Some (length (loggers w))) = Inl NilPointerDereference"
    by (simp add: deref_def)
  have ch: "deref (loggers w') (Some (length (loggers w))) = Inr child"
    by (simp add: deref_def w'_def)
  have par: "deref (loggers w') p = Inr plg"
    using deref_append [OF assms] by (simp add: w'_def)
  have fr: "w' = w\<lparr>loggers := loggers w'\<rparr>" "take (length (loggers w)) (loggers w') = loggers w"
    by (simp_all add: w'_def)
  have same: "sensitive w' = sensitive w" "engines w' = engines w"
    by (simp_all add: w'_def)
  have emit: "\<exists>zs. list_all2 (\<lambda>f z. fst z = Key f \<and>
                          maskSensitiveData mapLower (sensitive w) (Key f) (Value f) = Inr (snd z))
                       (fields' plg @ cs) zs \<and>
                 Trace mapLower w' p m cs = Inr (handed w' h \<lparr>zlevel = ZapDebug, zmsg = m, zfields = zs\<rparr>) \<and>
                 Debug mapLower w' p m cs = Inr (handed w' h \<lparr>zlevel = ZapDebug, zmsg = m, zfields = zs\<rparr>) \<and>
                 Info mapLower w' p m cs = Inr (handed w' h \<lparr>zlevel = ZapInfo, zmsg = m, zfields = zs\<rparr>) \<and>
                 Warn mapLower w' p m cs = Inr (handed w' h \<lparr>zlevel = ZapWarn, zmsg = m, zfields = zs\<rparr>) \<and>
                 Error mapLower w' p m cs = Inr (handed w' h \<lparr>zlevel = ZapError, zmsg = m, zfields = zs\<rparr>) \<and>
                 Fatal mapLower w' p m cs = Inr (handed w' h \<lparr>zlevel = ZapFatal, zmsg = m, zfields = zs\<rparr>)"
    if zh: "zapLogger plg = Some h" and hl: "h < length (engines w)" for h m cs
  proof -
    obtain zs where c: "convertFields mapLower (sensitive w) (fields' plg @ cs) = Inr zs"
      and l: "list_all2 (\<lambda>f z. fst z = Key f \<and>
                          maskSensitiveData mapLower (sensitive w) (Key f) (Value f) = Inr (snd z))
                       (fields' plg @ cs) zs"
      using convertFields_ok by blast
    have c': "convertFields mapLower (sensitive w') (fields' plg @ cs) = Inr zs"
      using c by (simp add: same)
    have hl': "h < length (engines w')" using hl by (simp add: same)
    show ?thesis
      using l plain_methods_emit [OF par zh hl' c', of m] by blast
  qed
  show ?thesis
    using r fresh ch par fr emit unfolding child_def by blast
qed

theorem With_child_and_frame_witness:
  "With exampleWorld (Some 0) [\<lparr>Key = ''user_id'', Value = VString ''12345''\<rparr>]
     = Inr (Some 1, exampleWorld\<lparr>loggers := loggers exampleWorld @
          [\<lparr>zapLogger = Some 0,
            fields' = [\<lparr>Key = ''service'', Value = VString ''api''\<rparr>,
                       \<lparr>Key = ''user_id'', Value = VString ''12345''\<rparr>]\<rparr>]\<rparr>)"
proof -
  let ?lg = "\<lparr>zapLogger = Some 0, fields' = [\<lparr>Key = ''service'', Value = VString ''api''\<rparr>]\<rparr>"
  from With_child_and_frame [OF exampleWorld_logger, of "[\<lparr>Key = ''user_id'', Value = VString ''12345''\<rparr>]"]
  obtain w' where
    r: "With exampleWorld (Some 0) [\<lparr>Key = ''user_id'', Value = VString ''12345''\<rparr>]
          = Inr (Some (length (loggers exampleWorld)), w')"
    by blast
  have n: "length (loggers exampleWorld) = 1" by (simp add: exampleWorld_def)
  have "With exampleWorld (Some 0) [\<lparr>Key = ''user_id'', Value = VString ''12345''\<rparr>]
     = Inr (Some 1, exampleWorld\<lparr>loggers := loggers exampleWorld @
          [\<lparr>zapLogger = Some 0,
            fields' = [\<lparr>Key = ''service'', Value = VString ''api''\<rparr>,
                       \<lparr>Key = ''user_id'', Value = VString ''12345''\<rparr>]\<rparr>]\<rparr>)"
    by (simp add: With_def exampleWorld_logger n)
  with r show ?thesis by simp
qed

text \<open>
  C9 (as amended). Keys are matched by their lower-case form under \<open>strings.ToLower\<close>:
  after adding \<open>k\<close>, a key \<open>k'\<close> is sensitive exactly when it has the lower-case form
  of \<open>k\<close> or was sensitive before; after removing \<open>k\<close>, exactly when it has another
  lower-case form and was sensitive before. So for \<open>k'\<close> with the lower-case form of
  \<open>k\<close>, which every ASCII key differing from \<open>k\<close> only in letter case has: after adding
  \<open>k\<close> the key \<open>k'\<close> is sensitive, after removing \<open>k\<close> it is not, and adding or
  removing again, under either spelling, changes nothing. Removing an absent key changes
  nothing. After any sequence of add and remove calls on the built-in registry every
  stored key is a built-in key, all of which are lowercase ASCII, or the
  \<open>strings.ToLower\<close> form of an added key, which is lowercase ASCII when the key is ASCII.
\<close>

theorem registry_matches_lowercase_form:
  "(isSensitiveKey mapLower (AddSensitiveKey mapLower k reg) k' \<longleftrightarrow>
      ToLower mapLower k' = ToLower mapLower k \<or> isSensitiveKey mapLower reg k') \<and>
   (isSensitiveKey mapLower (RemoveSensitiveKey mapLower k reg) k' \<longleftrightarrow>
      ToLower mapLower k' \<noteq> ToLower mapLower k \<and> isSensitiveKey mapLower reg k') \<and>
   (isASCII k \<and> asciiCaseVariant k k' \<longrightarrow> ToLower mapLower k' = ToLower mapLower k) \<and>
   (ToLower mapLower k' = ToLower mapLower k \<longrightarrow>
      isSensitiveKey mapLower (AddSensitiveKey mapLower k reg) k' \<and>
      \<not> isSensitiveKey mapLower (RemoveSensitiveKey mapLower k reg) k' \<and>
      AddSensitiveKey mapLower k' (AddSensitiveKey mapLower k reg) = AddSensitiveKey mapLower k reg \<and>
      RemoveSensitiveKey mapLower k' (RemoveSensitiveKey mapLower k reg) =
        RemoveSensitiveKey mapLower k reg) \<and>
   (ToLower mapLower k \<notin> dom reg \<longrightarrow> RemoveSensitiveKey mapLower k reg = reg) \<and>
   (\<forall>ops. \<forall>s \<in> dom (registryAfter mapLower ops sensitiveKeys).
      s \<in> dom sensitiveKeys \<or> (\<exists>a. Add a \<in> set ops \<and> s = ToLower mapLower a)) \<and>
   (\<forall>s \<in> dom sensitiveKeys. lowercaseASCII s) \<and>
   (isASCII k \<longrightarrow> lowercaseASCII (ToLower mapLower k))"
proof -
  have add: "isSensitiveKey mapLower (AddSensitiveKey mapLower k reg) k' \<longleftrightarrow>
      ToLower mapLower k' = ToLower mapLower k \<or> isSensitiveKey mapLower reg k'"
    by (simp add: isSensitiveKey_def AddSensitiveKey_def)
  have rem: "isSensitiveKey mapLower (RemoveSensitiveKey mapLower k reg) k' \<longleftrightarrow>
      ToLower mapLower k' \<noteq> ToLower mapLower k \<and> isSensitiveKey mapLower reg k'"
    by (simp add: isSensitiveKey_def RemoveSensitiveKey_def)
  have ascii: "isASCII k \<and> asciiCaseVariant k k' \<longrightarrow> ToLower mapLower k' = ToLower mapLower k"
    using asciiCaseVariant_ToLower by blast
  have same: "ToLower mapLower k' = ToLower mapLower k \<longrightarrow>
      isSensitiveKey mapLower (AddSensitiveKey mapLower k reg) k' \<and>
      \<not> isSensitiveKey mapLower (RemoveSensitiveKey mapLower k reg) k' \<and>
      AddSensitiveKey mapLower k' (AddSensitiveKey mapLower k reg) = AddSensitiveKey mapLower k reg \<and>
      RemoveSensitiveKey mapLower k' (RemoveSensitiveKey mapLower k reg) =
        RemoveSensitiveKey mapLower k reg"
    by (simp add: isSensitiveKey_def AddSensitiveKey_def RemoveSensitiveKey_def)
  have absent: "ToLower mapLower k \<notin> dom reg \<longrightarrow> RemoveSensitiveKey mapLower k reg = reg"
    by (auto simp: RemoveSensitiveKey_def fun_upd_idem_iff)
  have stored: "\<forall>ops. \<forall>s \<in> dom (registryAfter mapLower ops sensitiveKeys).
      s \<in> dom sensitiveKeys \<or> (\<exists>a. Add a \<in> set ops \<and> s = ToLower mapLower a)"
    using registryAfter_stored by blast
  have builtin: "\<forall>s \<in> dom sensitiveKeys. lowercaseASCII s"
    using sensitiveKeys_lower by blast
  have low: "isASCII k \<longrightarrow> lowercaseASCII (ToLower mapLower k)"
    using lowercaseASCII_ToLower by blast
  show ?thesis
    using add rem ascii same absent stored builtin low by blast
qed

theorem registry_matches_lowercase_form_witness:
  "isASCII ''Session_ID'' \<and> asciiCaseVariant ''Session_ID'' ''SESSION_id'' \<and>
   ToLower sigmaMapLower ''SESSION_id'' = ToLower sigmaMapLower ''Session_ID'' \<and>
   isSensitiveKey sigmaMapLower (AddSensitiveKey sigmaMapLower ''Session_ID'' sensitiveKeys) ''SESSION_id'' \<and>
   \<not> isSensitiveKey sigmaMapLower
       (RemoveSensitiveKey sigmaMapLower ''Session_ID''
          (AddSensitiveKey sigmaMapLower ''Session_ID'' sensitiveKeys)) ''SESSION_id'' \<and>
   registryAfter sigmaMapLower [Add ''Session_ID'', Remove ''EMAIL''] sensitiveKeys ''session_id''
     = Some True \<and>
   lowercaseASCII (ToLower sigmaMapLower ''Session_ID'')"
  using registry_matches_lowercase_form
          [of sigmaMapLower "''Session_ID''" sensitiveKeys "''SESSION_id''"]
        registry_matches_lowercase_form
          [of sigmaMapLower "''Session_ID''"
              "AddSensitiveKey sigmaMapLower ''Session_ID'' sensitiveKeys" "''SESSION_id''"]
        session_ascii variant_example stored_example
  by blast

text \<open>
  Letter case alone does not decide the match. The final sigma is a lower-case form of
  the capital sigma (upper-casing it gives the capital), but the lower-case form of the
  capital sigma is the small sigma: after adding the capital sigma the final sigma is not
  sensitive, and after adding the final sigma and removing the capital one the final
  sigma is still sensitive.
\<close>

theorem sigma_case_variant_not_matched:
  "sigmaToUpper [CHR 0xCF, CHR 0x82] = [CHR 0xCE, CHR 0xA3] \<and>
   sigmaToUpper [CHR 0xCE, CHR 0xA3] = [CHR 0xCE, CHR 0xA3] \<and>
   ToLower sigmaMapLower [CHR 0xCE, CHR 0xA3] = [CHR 0xCF, CHR 0x83] \<and>
   ToLower sigmaMapLower [CHR 0xCF, CHR 0x82] = [CHR 0xCF, CHR 0x82] \<and>
   \<not> isSensitiveKey sigmaMapLower
       (AddSensitiveKey sigmaMapLower [CHR 0xCE, CHR 0xA3] sensitiveKeys) [CHR 0xCF, CHR 0x82] \<and>
   isSensitiveKey sigmaMapLower
     (RemoveSensitiveKey sigmaMapLower [CHR 0xCE, CHR 0xA3]
        (AddSensitiveKey sigmaMapLower [CHR 0xCF, CHR 0x82] sensitiveKeys)) [CHR 0xCF, CHR 0x82]"
  by code_simp

text \<open>
  C10. \<open>maskString\<close> returns a text whose length depends only on the length band of its
  argument: 0 for the empty text, 3 for lengths 1 and 2, 5 for lengths 3 and 4, and 7 from
  length 5 on; it is never longer than 7.
\<close>

theorem maskString_length_bands:
  "\<exists>m. maskString v = Inr m \<and>
       length m = (if length v = 0 then 0 else if length v \<le> 2 then 3
                   else if length v \<le> 4 then 5 else 7) \<and>
       length m \<le> 7"
  by (simp add: maskString_bands)

theorem maskString_length_bands_witness:
  "\<exists>m. maskString ''password123'' = Inr m \<and> length m = 7"
  using maskString_length_bands [of "''password123''"] by auto

end
